theory Spec2Isabelle
  imports Main "HOL-Library.Sublist" "HOL-Library.AList"
begin

section \<open>Federated calendar event search: the \<open>search_events\<close> tool\<close>

text \<open>
  A shallow embedding of \<^verbatim>\<open>src/shared/tools/search-events.ts\<close>.

  Strings are Isabelle strings (byte lists), read as the UTF-8 encoding of the
  JavaScript string. The source never measures a string; it only tests emptiness,
  concatenates, searches for a contiguous substring and lower-cases, all of which
  agree between the encodings on well-formed text.

  Two JavaScript built-ins are not code of this repository and are taken as
  parameters (\<open>JsRuntime\<close>): \<^verbatim>\<open>String.prototype.toLowerCase\<close> and
  \<^verbatim>\<open>new Date(s).getTime()\<close>. The remote calendar service is a parameter too
  (\<open>GoogleCalendarClient\<close>): a call either raises with a message (\<open>Inl\<close>) or returns.
\<close>

subsection \<open>JavaScript values used by the source\<close>

text \<open>Truthiness of an optional string: \<^verbatim>\<open>undefined\<close> and \<^verbatim>\<open>''\<close> are falsy.\<close>

definition truthy :: "string option \<Rightarrow> bool" where
  "truthy s = (case s of None \<Rightarrow> False | Some v \<Rightarrow> v \<noteq> [])"

text \<open>\<^verbatim>\<open>a || b\<close> on optional strings.\<close>

definition orElse :: "string option \<Rightarrow> string option \<Rightarrow> string option" where
  "orElse a b = (if truthy a then a else b)"

text \<open>\<^verbatim>\<open>xs.join(sep)\<close>; an \<^verbatim>\<open>undefined\<close> element is rendered as the empty string.\<close>

fun join :: "string \<Rightarrow> string list \<Rightarrow> string" where
  "join sep [] = []"
| "join sep [x] = x"
| "join sep (x # y # ys) = x @ sep @ join sep (y # ys)"

definition joinOpt :: "string \<Rightarrow> string option list \<Rightarrow> string" where
  "joinOpt sep xs = join sep (map (\<lambda>x. case x of None \<Rightarrow> [] | Some s \<Rightarrow> s) xs)"

text \<open>\<^verbatim>\<open>s.includes(t)\<close>: \<open>t\<close> occurs in \<open>s\<close> as a contiguous run.\<close>

definition str_includes :: "string \<Rightarrow> string \<Rightarrow> bool" where
  "str_includes s t = sublist t s"

text \<open>Template interpolation of a non-negative integer: its decimal digits.\<close>

definition digit :: "nat \<Rightarrow> char" where
  "digit d = char_of (48 + d)"

fun showNat :: "nat \<Rightarrow> string" where
  "showNat n = (if n < 10 then [digit n] else showNat (n div 10) @ [digit (n mod 10)])"

declare showNat.simps [simp del]

definition newline :: string where
  "newline = [CHR 0x0A]"

text \<open>The em dash of \<^verbatim>\<open>formatEventLine\<close>, U+2014, in UTF-8.\<close>

definition emDash :: string where
  "emDash = [CHR 0xE2, CHR 0x80, CHR 0x94]"

definition dquote :: string where
  "dquote = [CHR 0x22]"

definition squote :: string where
  "squote = [CHR 0x27]"

record JsRuntime =
  toLowerCase :: "string \<Rightarrow> string"
  dateGetTime :: "string \<Rightarrow> int option"
    \<comment> \<open>\<^verbatim>\<open>new Date(s).getTime()\<close> in milliseconds; \<open>None\<close> is \<^verbatim>\<open>NaN\<close> (invalid date)\<close>

subsection \<open>Data model\<close>

text \<open>
  Modelled from the spec: the declarations of \<^verbatim>\<open>CalendarEvent\<close> and
  \<^verbatim>\<open>CalendarListItem\<close> live in \<^verbatim>\<open>services/google-calendar.js\<close>, which is not
  among the sources. The event record has the properties the source reads and those
  it names in \<^verbatim>\<open>ALL_FIELDS\<close>; an absent property is \<open>None\<close>. Nested values the
  source never inspects are kept as opaque text. Field names follow the source except
  where two records share a name or the name is taken: \<open>event_id\<close> and \<open>end_time\<close>
  are the event's \<^verbatim>\<open>id\<close> and \<^verbatim>\<open>end\<close>, \<open>cal_id\<close> and \<open>cal_summary\<close> the calendar's
  \<^verbatim>\<open>id\<close> and \<^verbatim>\<open>summary\<close>, \<open>ev_calendarId\<close> and \<open>ev_calendarName\<close> the two
  properties \<^verbatim>\<open>EventWithCalendar\<close> adds.
\<close>

record EventDateTime =
  dateTime :: "string option"
  date :: "string option"

record Attendee =
  email :: "string option"
  displayName :: "string option"
  self :: "bool option"
  responseStatus :: "string option"

record CalendarEvent =
  event_id :: "string option"
  summary :: "string option"
  description :: "string option"
  start :: "EventDateTime option"
  end_time :: "EventDateTime option"
  location :: "string option"
  attendees :: "Attendee list option"
  organizer :: "string option"
  creator :: "string option"
  htmlLink :: "string option"
  hangoutLink :: "string option"
  conferenceData :: "string option"
  status :: "string option"
  eventType :: "string option"
  visibility :: "string option"
  colorId :: "string option"
  recurringEventId :: "string option"
  recurrence :: "string list option"

record EventWithCalendar = CalendarEvent +
  ev_calendarId :: string
  ev_calendarName :: string

record CalendarListItem =
  cal_id :: string
  cal_summary :: string
  accessRole :: string

datatype OrderBy = StartTime | Updated

datatype EventType = Default | Birthday | FocusTime | OutOfOffice | WorkingLocation

text \<open>
  \<^verbatim>\<open>calendarId\<close> is a string or an array of strings; the schema's default is the
  string \<^verbatim>\<open>'all'\<close>.
\<close>

datatype CalendarIdArg = IdString string | IdArray "string list"

text \<open>
  The handler's \<^verbatim>\<open>args\<close>, after \<^verbatim>\<open>InputSchema\<close> has parsed them and filled in its
  defaults: \<open>calendarId\<close> (default \<^verbatim>\<open>'all'\<close>), \<open>maxResults\<close> (an integer from 1
  to 250, default 50) and \<open>singleEvents\<close> (default true) are always present.
  \<open>arg_fields\<close> is \<^verbatim>\<open>args.fields\<close>.
\<close>

record Args =
  calendarId :: CalendarIdArg
  timeMin :: "string option"
  timeMax :: "string option"
  query :: "string option"
  maxResults :: nat
  eventTypes :: "EventType list option"
  orderBy :: "OrderBy option"
  pageToken :: "string option"
  arg_fields :: "string list option"
  singleEvents :: bool

record Context =
  providerToken :: "string option"

text \<open>The argument of \<^verbatim>\<open>client.listEvents\<close>, as the handler builds it.\<close>

record ListEventsParams =
  p_calendarId :: string
  p_timeMin :: "string option"
  p_timeMax :: "string option"
  p_maxResults :: nat
  p_singleEvents :: bool
  p_orderBy :: "OrderBy option"
  p_eventTypes :: "EventType list option"
  p_pageToken :: "string option"

record ListEventsResult =
  items :: "CalendarEvent list"
  nextPageToken :: "string option"

text \<open>
  The remote service behind \<^verbatim>\<open>new GoogleCalendarClient(token)\<close>. Within one call of
  the handler it answers as a function of the request; \<open>Inl m\<close> is a raised
  \<^verbatim>\<open>Error\<close> with message \<open>m\<close>.
\<close>

record GoogleCalendarClient =
  listCalendars :: "string + CalendarListItem list"
  listEvents :: "ListEventsParams \<Rightarrow> string + ListEventsResult"

text \<open>The network calls the handler issues, in the order it issues them.\<close>

datatype NetCall = CallListCalendars | CallListEvents ListEventsParams

fun isListEvents :: "NetCall \<Rightarrow> bool" where
  "isListEvents CallListCalendars = False"
| "isListEvents (CallListEvents p) = True"

text \<open>A projected property value of \<^verbatim>\<open>pickFields\<close>.\<close>

datatype FieldValue =
    VString string
  | VTime EventDateTime
  | VAttendees "Attendee list"
  | VStrings "string list"

type_synonym Projected = "(string \<times> FieldValue) list"

record StructuredContent =
  sc_items :: "Projected list"
  calendarsSearched :: "string list"
  sc_nextPageToken :: "string option"

text \<open>
  \<^verbatim>\<open>ToolResult\<close>: \<open>content_text\<close> is the text of the single content item; \<open>isError\<close> is
  false where the source leaves it out.
\<close>

record ToolResult =
  isError :: bool
  content_text :: string
  structuredContent :: "StructuredContent option"


subsection \<open>Constants\<close>

definition DEFAULT_FIELDS :: "string list" where
  "DEFAULT_FIELDS =
     [''id'', ''summary'', ''start'', ''end'', ''location'', ''htmlLink'', ''status'',
      ''attendees'', ''calendarId'', ''calendarName'']"

definition ALL_FIELDS :: "string list" where
  "ALL_FIELDS =
     [''id'', ''summary'', ''description'', ''start'', ''end'', ''location'', ''attendees'',
      ''organizer'', ''creator'', ''htmlLink'', ''hangoutLink'', ''conferenceData'',
      ''status'', ''eventType'', ''visibility'', ''colorId'', ''recurringEventId'',
      ''recurrence'', ''calendarId'', ''calendarName'']"

subsection \<open>\<^verbatim>\<open>formatEventLine\<close>\<close>

definition responseMap :: "(string \<times> string) list" where
  "responseMap =
     [(''accepted'', ''you: accepted''), (''declined'', ''you: declined''),
      (''tentative'', ''you: maybe''), (''needsAction'', ''you: not responded'')]"

text \<open>\<^verbatim>\<open>event.start?.dateTime || event.start?.date\<close>\<close>

definition startString :: "'a CalendarEvent_scheme \<Rightarrow> string option" where
  "startString event =
     orElse (Option.bind (start event) dateTime) (Option.bind (start event) date)"

definition formatEventLine :: "EventWithCalendar \<Rightarrow> string" where
  "formatEventLine event =
     (let startStr = (case orElse (startString event) (Some ''no date'') of
                        Some s \<Rightarrow> s | None \<Rightarrow> []);
          title = (case orElse (summary event) (Some ''(no title)'') of
                     Some s \<Rightarrow> s | None \<Rightarrow> []);
          calendar = (if ev_calendarName event \<noteq> []
                      then '' ('' @ ev_calendarName event @ '')'' else []);
          selfAttendee = (case attendees event of
                            None \<Rightarrow> None
                          | Some as \<Rightarrow> find (\<lambda>a. self a = Some True) as);
          statusInfo =
            (case Option.bind selfAttendee responseStatus of
               Some rs \<Rightarrow>
                 if rs \<noteq> []
                 then '' ['' @ (case map_of responseMap rs of Some t \<Rightarrow> t | None \<Rightarrow> rs) @ '']''
                 else if status event = Some ''cancelled'' then '' [cancelled]'' else []
             | None \<Rightarrow> if status event = Some ''cancelled'' then '' [cancelled]'' else [])
      in case htmlLink event of
           Some link \<Rightarrow>
             if link \<noteq> []
             then ''- ['' @ title @ '']('' @ link @ '') '' @ emDash @ '' '' @ startStr
                    @ calendar @ statusInfo
             else ''- '' @ title @ '' '' @ emDash @ '' '' @ startStr @ calendar @ statusInfo
         | None \<Rightarrow> ''- '' @ title @ '' '' @ emDash @ '' '' @ startStr @ calendar @ statusInfo)"

subsection \<open>\<^verbatim>\<open>pickFields\<close>\<close>

text \<open>
  \<^verbatim>\<open>field in event\<close> together with \<^verbatim>\<open>event[field]\<close>: \<open>None\<close> when the event has no
  such property. Properties outside the record (and those a JavaScript object
  inherits from its prototype) are not modelled.
\<close>

definition eventProperty :: "EventWithCalendar \<Rightarrow> string \<Rightarrow> FieldValue option" where
  "eventProperty event field =
     (if field = ''id'' then map_option VString (event_id event)
      else if field = ''summary'' then map_option VString (summary event)
      else if field = ''description'' then map_option VString (description event)
      else if field = ''start'' then map_option VTime (start event)
      else if field = ''end'' then map_option VTime (end_time event)
      else if field = ''location'' then map_option VString (location event)
      else if field = ''attendees'' then map_option VAttendees (attendees event)
      else if field = ''organizer'' then map_option VString (organizer event)
      else if field = ''creator'' then map_option VString (creator event)
      else if field = ''htmlLink'' then map_option VString (htmlLink event)
      else if field = ''hangoutLink'' then map_option VString (hangoutLink event)
      else if field = ''conferenceData'' then map_option VString (conferenceData event)
      else if field = ''status'' then map_option VString (status event)
      else if field = ''eventType'' then map_option VString (eventType event)
      else if field = ''visibility'' then map_option VString (visibility event)
      else if field = ''colorId'' then map_option VString (colorId event)
      else if field = ''recurringEventId'' then map_option VString (recurringEventId event)
      else if field = ''recurrence'' then map_option VStrings (recurrence event)
      else if field = ''calendarId'' then Some (VString (ev_calendarId event))
      else if field = ''calendarName'' then Some (VString (ev_calendarName event))
      else None)"

text \<open>
  The result object, as its properties in insertion order: assigning a property that
  is already there keeps its place.
\<close>

definition pickFields :: "EventWithCalendar \<Rightarrow> string list \<Rightarrow> Projected" where
  "pickFields event fs =
     foldl (\<lambda>result field.
              case eventProperty event field of
                Some v \<Rightarrow> AList.update field v result
              | None \<Rightarrow> result) [] fs"

subsection \<open>\<^verbatim>\<open>getEventStartTime\<close> and the sort\<close>

text \<open>The result is a JavaScript number: \<open>None\<close> is \<^verbatim>\<open>NaN\<close>.\<close>

definition getEventStartTime :: "JsRuntime \<Rightarrow> 'a CalendarEvent_scheme \<Rightarrow> int option" where
  "getEventStartTime J event =
     (case startString event of
        None \<Rightarrow> Some 0
      | Some dateStr \<Rightarrow> if dateStr = [] then Some 0 else dateGetTime J dateStr)"

text \<open>
  The comparator \<^verbatim>\<open>(a, b) => getEventStartTime(a) - getEventStartTime(b)\<close>. A
  difference with a \<^verbatim>\<open>NaN\<close> operand is \<^verbatim>\<open>NaN\<close>, which \<^verbatim>\<open>sort\<close> reads as 0.
\<close>

definition compareStart :: "JsRuntime \<Rightarrow> 'a CalendarEvent_scheme \<Rightarrow> 'a CalendarEvent_scheme \<Rightarrow> int" where
  "compareStart J a b =
     (case getEventStartTime J a of
        None \<Rightarrow> 0
      | Some x \<Rightarrow> (case getEventStartTime J b of None \<Rightarrow> 0 | Some y \<Rightarrow> x - y))"

text \<open>
  \<^verbatim>\<open>Array.prototype.sort\<close> with a comparator, which ECMAScript requires to be stable:
  modelled as a stable insertion sort. Where the comparator is a consistent ordering
  every conforming engine returns this list; where it is not (a \<^verbatim>\<open>NaN\<close> key) the
  order is left to the engine and this is one possible outcome.
\<close>

fun insertBy :: "('a \<Rightarrow> 'a \<Rightarrow> int) \<Rightarrow> 'a \<Rightarrow> 'a list \<Rightarrow> 'a list" where
  "insertBy cmp x [] = [x]"
| "insertBy cmp x (y # ys) = (if cmp x y \<le> 0 then x # y # ys else y # insertBy cmp x ys)"

definition arraySort :: "('a \<Rightarrow> 'a \<Rightarrow> int) \<Rightarrow> 'a list \<Rightarrow> 'a list" where
  "arraySort cmp xs = foldr (insertBy cmp) xs []"

subsection \<open>\<^verbatim>\<open>matchesQuerySubstring\<close>\<close>

definition searchableFields :: "'a CalendarEvent_scheme \<Rightarrow> string option list" where
  "searchableFields event =
     [summary event, description event, location event]
     @ (case attendees event of None \<Rightarrow> [] | Some as \<Rightarrow> map email as)
     @ (case attendees event of None \<Rightarrow> [] | Some as \<Rightarrow> map displayName as)"

definition matchesQuerySubstring :: "JsRuntime \<Rightarrow> 'a CalendarEvent_scheme \<Rightarrow> string \<Rightarrow> bool" where
  "matchesQuerySubstring J event q =
     (let lowerQuery = toLowerCase J q
      in list_ex (\<lambda>field. case field of
                             None \<Rightarrow> False
                           | Some f \<Rightarrow> f \<noteq> [] \<and> str_includes (toLowerCase J f) lowerQuery)
                 (searchableFields event))"


subsection \<open>The handler, stage by stage\<close>

text \<open>The descriptor built for an explicit calendar id.\<close>

definition calendarOfId :: "string \<Rightarrow> CalendarListItem" where
  "calendarOfId cid =
     \<lparr>cal_id = cid,
      cal_summary = (if cid = ''primary'' then ''Primary'' else cid),
      accessRole = ''reader''\<rparr>"

text \<open>
  \<^verbatim>\<open>calendarsToSearch\<close>, with the network calls made to compute it. \<open>Inl m\<close>:
  \<^verbatim>\<open>client.listCalendars()\<close> raised with message \<open>m\<close>.
\<close>

definition calendarsToSearch ::
  "GoogleCalendarClient \<Rightarrow> Args \<Rightarrow> (string + CalendarListItem list) \<times> NetCall list" where
  "calendarsToSearch client args =
     (if calendarId args = IdString ''all''
      then (case listCalendars client of
              Inl m \<Rightarrow> (Inl m, [CallListCalendars])
            | Inr calendarList \<Rightarrow>
                (Inr (filter (\<lambda>cal. accessRole cal \<in> set [''owner'', ''writer'', ''reader''])
                        calendarList),
                 [CallListCalendars]))
      else (case calendarId args of
              IdArray ids \<Rightarrow> (Inr (map calendarOfId ids), [])
            | IdString cid \<Rightarrow> (Inr [calendarOfId cid], [])))"

definition hasLocalQuery :: "Args \<Rightarrow> bool" where
  "hasLocalQuery args = truthy (query args)"

definition fetchMultiplier :: "Args \<Rightarrow> nat" where
  "fetchMultiplier args = (if hasLocalQuery args then 10 else 2)"

definition minFetchAmount :: "Args \<Rightarrow> nat" where
  "minFetchAmount args = (if hasLocalQuery args then 100 else 10)"

text \<open>The \<^verbatim>\<open>maxResults\<close> sent to \<^verbatim>\<open>listEvents\<close>; \<open>requestedMax\<close> is \<open>maxResults args\<close>.\<close>

definition fetchMaxResults :: "Args \<Rightarrow> nat" where
  "fetchMaxResults args =
     (if calendarId args = IdString ''all''
      then min (max (maxResults args * fetchMultiplier args) (minFetchAmount args)) 250
      else min (max (maxResults args * fetchMultiplier args) (minFetchAmount args)) 250)"

definition listEventsParams :: "Args \<Rightarrow> CalendarListItem \<Rightarrow> ListEventsParams" where
  "listEventsParams args calendar =
     \<lparr>p_calendarId = cal_id calendar,
      p_timeMin = timeMin args,
      p_timeMax = timeMax args,
      p_maxResults = fetchMaxResults args,
      p_singleEvents = singleEvents args,
      p_orderBy = (if singleEvents args
                   then (case orderBy args of None \<Rightarrow> Some StartTime | Some ob \<Rightarrow> Some ob)
                   else orderBy args),
      p_eventTypes = eventTypes args,
      p_pageToken = pageToken args\<rparr>"

text \<open>One element of \<^verbatim>\<open>results\<close>.\<close>

record SearchResult =
  sr_calendar :: CalendarListItem
  sr_events :: "EventWithCalendar list"
  sr_nextPageToken :: "string option"
  sr_error :: "string option"

text \<open>\<^verbatim>\<open>{...event, calendarId: calendar.id, calendarName: calendar.summary}\<close>\<close>

definition withCalendar :: "CalendarListItem \<Rightarrow> CalendarEvent \<Rightarrow> EventWithCalendar" where
  "withCalendar calendar event =
     CalendarEvent.extend event
       (EventWithCalendar.fields (cal_id calendar) (cal_summary calendar))"

text \<open>
  The body of one search promise, with the call it issues. The \<^verbatim>\<open>console.warn\<close> of
  the catch branch writes to the log only and is left out.
\<close>

definition searchCalendar ::
  "GoogleCalendarClient \<Rightarrow> Args \<Rightarrow> CalendarListItem \<Rightarrow> SearchResult \<times> NetCall list" where
  "searchCalendar client args calendar =
     (let params = listEventsParams args calendar
      in (case listEvents client params of
            Inr result \<Rightarrow>
              \<lparr>sr_calendar = calendar,
               sr_events = map (withCalendar calendar) (items result),
               sr_nextPageToken = nextPageToken result,
               sr_error = None\<rparr>
          | Inl message \<Rightarrow>
              \<lparr>sr_calendar = calendar,
               sr_events = [],
               sr_nextPageToken = None,
               sr_error = Some message\<rparr>,
          [CallListEvents params]))"

text \<open>
  \<^verbatim>\<open>Promise.all(searchPromises)\<close>: one search per calendar, in the order of
  \<^verbatim>\<open>calendarsToSearch\<close>; \<open>searchResults\<close> is the array \<^verbatim>\<open>results\<close>.
\<close>

definition searchAll ::
  "GoogleCalendarClient \<Rightarrow> Args \<Rightarrow> CalendarListItem list \<Rightarrow> (SearchResult \<times> NetCall list) list" where
  "searchAll client args calendars = map (searchCalendar client args) calendars"

definition searchResults ::
  "GoogleCalendarClient \<Rightarrow> Args \<Rightarrow> CalendarListItem list \<Rightarrow> SearchResult list" where
  "searchResults client args calendars = map fst (searchAll client args calendars)"

definition searchCalls ::
  "GoogleCalendarClient \<Rightarrow> Args \<Rightarrow> CalendarListItem list \<Rightarrow> NetCall list" where
  "searchCalls client args calendars = concat (map snd (searchAll client args calendars))"

text \<open>\<^verbatim>\<open>results.flatMap((r) => r.events)\<close>\<close>

definition flatEvents :: "SearchResult list \<Rightarrow> EventWithCalendar list" where
  "flatEvents results = concat (map sr_events results)"

text \<open>The local substring filter, applied when \<^verbatim>\<open>args.query\<close> is truthy.\<close>

definition filterEvents :: "JsRuntime \<Rightarrow> Args \<Rightarrow> EventWithCalendar list \<Rightarrow> EventWithCalendar list" where
  "filterEvents J args allEvents =
     (case query args of
        None \<Rightarrow> allEvents
      | Some q \<Rightarrow> if q \<noteq> [] then filter (\<lambda>event. matchesQuerySubstring J event q) allEvents
                 else allEvents)"

definition sortEvents :: "JsRuntime \<Rightarrow> Args \<Rightarrow> EventWithCalendar list \<Rightarrow> EventWithCalendar list" where
  "sortEvents J args allEvents =
     (if singleEvents args \<noteq> False \<and> (orderBy args = Some StartTime \<or> orderBy args = None)
      then arraySort (compareStart J) allEvents
      else allEvents)"

text \<open>\<^verbatim>\<open>allEvents\<close> as it stands before the total limit is applied.\<close>

definition mergedEvents :: "JsRuntime \<Rightarrow> Args \<Rightarrow> SearchResult list \<Rightarrow> EventWithCalendar list" where
  "mergedEvents J args results = sortEvents J args (filterEvents J args (flatEvents results))"

definition hasMore :: "JsRuntime \<Rightarrow> Args \<Rightarrow> SearchResult list \<Rightarrow> bool" where
  "hasMore J args results = (length (mergedEvents J args results) > maxResults args)"

text \<open>\<^verbatim>\<open>allEvents\<close> after \<^verbatim>\<open>slice(0, maxResults)\<close>: the returned events.\<close>

definition cappedEvents :: "JsRuntime \<Rightarrow> Args \<Rightarrow> SearchResult list \<Rightarrow> EventWithCalendar list" where
  "cappedEvents J args results = take (maxResults args) (mergedEvents J args results)"

definition projectionFields :: "Args \<Rightarrow> string list" where
  "projectionFields args =
     (case arg_fields args of
        Some fs \<Rightarrow> if length fs > 0 then fs else DEFAULT_FIELDS
      | None \<Rightarrow> DEFAULT_FIELDS)"

definition filteredItems :: "JsRuntime \<Rightarrow> Args \<Rightarrow> SearchResult list \<Rightarrow> Projected list" where
  "filteredItems J args results =
     map (\<lambda>event. pickFields event (projectionFields args)) (cappedEvents J args results)"

definition searchedCalendars :: "SearchResult list \<Rightarrow> string list" where
  "searchedCalendars results =
     map (\<lambda>r. cal_summary (sr_calendar r)) (filter (\<lambda>r. \<not> truthy (sr_error r)) results)"

definition failedCalendars :: "SearchResult list \<Rightarrow> string list" where
  "failedCalendars results =
     map (\<lambda>r. cal_summary (sr_calendar r)) (filter (\<lambda>r. truthy (sr_error r)) results)"

text \<open>The lines pushed while \<^verbatim>\<open>lines\<close> is built, block by block.\<close>

definition failedLine :: "SearchResult list \<Rightarrow> string" where
  "failedLine results = ''(Failed to search: '' @ join '', '' (failedCalendars results) @ '')''"

definition summaryLines :: "Args \<Rightarrow> SearchResult list \<Rightarrow> string list" where
  "summaryLines args results =
     (if calendarId args = IdString ''all'' \<and> length (searchedCalendars results) > 1
      then [''Searched '' @ showNat (length (searchedCalendars results)) @ '' calendar(s): ''
              @ join '', '' (searchedCalendars results)]
           @ (if length (failedCalendars results) > 0 then [failedLine results] else [])
           @ [[]]
      else [])"

definition eventLines :: "EventWithCalendar \<Rightarrow> string list" where
  "eventLines event =
     [formatEventLine event]
     @ (case location event of
          Some l \<Rightarrow> if l \<noteq> [] then [''  location: '' @ l] else []
        | None \<Rightarrow> [])
     @ (case attendees event of
          Some as \<Rightarrow>
            if length as > 0
            then [''  attendees: '' @ joinOpt '', '' (map email (take 5 as))
                    @ (if length as > 5 then '' +'' @ showNat (length as - 5) @ '' more'' else [])]
            else []
        | None \<Rightarrow> [])
     @ (case hangoutLink event of
          Some h \<Rightarrow> if h \<noteq> [] then [''  meet: '' @ h] else []
        | None \<Rightarrow> [])"

definition foundLine :: "nat \<Rightarrow> bool \<Rightarrow> string" where
  "foundLine n anyMore =
     ''Found '' @ showNat n @ '' event(s)'' @ (if anyMore then '' (more available)'' else [])
       @ '':'' @ newline"

definition resultLines :: "EventWithCalendar list \<Rightarrow> bool \<Rightarrow> string list" where
  "resultLines allEvents anyMore =
     (if length allEvents = 0
      then [''No events found matching the criteria.'']
      else [foundLine (length allEvents) anyMore] @ concat (map eventLines allEvents))"

text \<open>\<^verbatim>\<open>calendarsToSearch.length === 1 ? results[0] : null\<close>\<close>

definition singleCalendarResult :: "CalendarListItem list \<Rightarrow> SearchResult list \<Rightarrow> SearchResult option" where
  "singleCalendarResult calendars results =
     (if length calendars = 1
      then (case results of [] \<Rightarrow> None | r # rs \<Rightarrow> Some r)
      else None)"

definition pageTokenLine :: "string \<Rightarrow> string" where
  "pageTokenLine tok =
     newline @ ''More results available. Pass pageToken: '' @ dquote @ tok @ dquote
       @ '' to fetch next page.''"

definition increaseLine :: string where
  "increaseLine =
     newline @ ''More results available. Increase maxResults or narrow your time range.''"

definition paginationLines ::
  "Args \<Rightarrow> SearchResult option \<Rightarrow> EventWithCalendar list \<Rightarrow> bool \<Rightarrow> string list" where
  "paginationLines args single allEvents anyMore =
     (let hasResultsToShow = (length allEvents > 0)
      in if hasResultsToShow \<and> truthy (Option.bind single sr_nextPageToken) \<and> \<not> truthy (query args)
         then (case Option.bind single sr_nextPageToken of
                 Some tok \<Rightarrow> [pageTokenLine tok]
               | None \<Rightarrow> [])
         else if hasResultsToShow \<and> anyMore then [increaseLine]
         else [])"

definition noteLine :: string where
  "noteLine =
     newline @ ''Note: Use the calendarId from results when calling '' @ squote
       @ ''update_event'' @ squote @ '' or '' @ squote @ ''delete_event'' @ squote @ ''.''"

text \<open>The array \<^verbatim>\<open>lines\<close> at the return statement.\<close>

definition renderLines ::
  "JsRuntime \<Rightarrow> Args \<Rightarrow> CalendarListItem list \<Rightarrow> SearchResult list \<Rightarrow> string list" where
  "renderLines J args calendars results =
     summaryLines args results
     @ resultLines (cappedEvents J args results) (hasMore J args results)
     @ paginationLines args (singleCalendarResult calendars results)
         (cappedEvents J args results) (hasMore J args results)
     @ [noteLine]"

definition successResult ::
  "JsRuntime \<Rightarrow> Args \<Rightarrow> CalendarListItem list \<Rightarrow> SearchResult list \<Rightarrow> ToolResult" where
  "successResult J args calendars results =
     \<lparr>isError = False,
      content_text = join newline (renderLines J args calendars results),
      structuredContent =
        Some \<lparr>sc_items = filteredItems J args results,
              calendarsSearched = searchedCalendars results,
              sc_nextPageToken =
                Option.bind (singleCalendarResult calendars results) sr_nextPageToken\<rparr>\<rparr>"

definition errorResult :: "string \<Rightarrow> ToolResult" where
  "errorResult message = \<lparr>isError = True, content_text = message, structuredContent = None\<rparr>"

definition authRequiredText :: string where
  "authRequiredText = ''Authentication required. Please authenticate with Google Calendar.''"

definition paginationErrorText :: string where
  "paginationErrorText =
     ''Pagination (pageToken) only works when searching a single calendar. Specify a calendarId to use pagination.''"

text \<open>
  The handler: the tool result and the network calls issued, in order.
  \<open>newClient token\<close> is \<^verbatim>\<open>new GoogleCalendarClient(token)\<close>.
\<close>

definition handler ::
  "JsRuntime \<Rightarrow> (string \<Rightarrow> GoogleCalendarClient) \<Rightarrow> Args \<Rightarrow> Context \<Rightarrow> ToolResult \<times> NetCall list" where
  "handler J newClient args context =
     (case providerToken context of
        None \<Rightarrow> (errorResult authRequiredText, [])
      | Some token \<Rightarrow>
          if token = [] then (errorResult authRequiredText, [])
          else
            (let client = newClient token
             in case calendarsToSearch client args of
                  (Inl message, calls) \<Rightarrow>
                    (errorResult (''Failed to search events: '' @ message), calls)
                | (Inr calendars, calls) \<Rightarrow>
                    if truthy (pageToken args) \<and> length calendars \<noteq> 1
                    then (errorResult paginationErrorText, calls)
                    else
                      (successResult J args calendars (searchResults client args calendars),
                       calls @ searchCalls client args calendars)))"


subsection \<open>The start instant of the specification\<close>


subsection \<open>Failed fetches and the default projection of the specification\<close>

text \<open>
  A fetch that failed, as the request is answered by the service: the event listing
  for the calendar raises, with a message that is not empty. (The source tells a
  failure by the truthiness of the recorded message.)
\<close>

definition fetchFailed :: "GoogleCalendarClient \<Rightarrow> Args \<Rightarrow> CalendarListItem \<Rightarrow> bool" where
  "fetchFailed client args calendar =
     (case listEvents client (listEventsParams args calendar) of
        Inl message \<Rightarrow> message \<noteq> []
      | Inr result \<Rightarrow> False)"

text \<open>
  The default projection in the specification's words: the record reduced to id,
  title, start, end, location, link, status, attendees, source id and source display
  name, in this order, keeping only the properties the event has.
\<close>

definition defaultProjection :: "EventWithCalendar \<Rightarrow> Projected" where
  "defaultProjection event =
     List.map_filter (\<lambda>entry. entry)
       [map_option (\<lambda>v. (''id'', VString v)) (event_id event),
        map_option (\<lambda>v. (''summary'', VString v)) (summary event),
        map_option (\<lambda>v. (''start'', VTime v)) (start event),
        map_option (\<lambda>v. (''end'', VTime v)) (end_time event),
        map_option (\<lambda>v. (''location'', VString v)) (location event),
        map_option (\<lambda>v. (''htmlLink'', VString v)) (htmlLink event),
        map_option (\<lambda>v. (''status'', VString v)) (status event),
        map_option (\<lambda>v. (''attendees'', VAttendees v)) (attendees event),
        Some (''calendarId'', VString (ev_calendarId event)),
        Some (''calendarName'', VString (ev_calendarName event))]"

subsection \<open>Example inputs\<close>

text \<open>
  A runtime for the examples: \<open>asciiLower\<close> is \<^verbatim>\<open>toLowerCase\<close> on ASCII text, and
  \<open>exampleDates\<close> gives the epoch milliseconds of the three timestamps used.
\<close>

definition asciiLower :: "string \<Rightarrow> string" where
  "asciiLower s =
     map (\<lambda>c. let n = (of_char c :: nat) in if 65 \<le> n \<and> n \<le> 90 then char_of (n + 32) else c) s"

definition exampleDates :: "string \<Rightarrow> int option" where
  "exampleDates s =
     map_of [(''2025-01-02T10:00:00Z'', 1735812000000),
             (''2025-01-01T12:00:00Z'', 1735732800000),
             (''1969-12-31T00:00:00Z'', - 86400000)] s"

definition exampleRuntime :: JsRuntime where
  "exampleRuntime = \<lparr>toLowerCase = asciiLower, dateGetTime = exampleDates\<rparr>"

definition blankEvent :: CalendarEvent where
  "blankEvent =
     \<lparr>event_id = None, summary = None, description = None, start = None, end_time = None,
      location = None, attendees = None, organizer = None, creator = None, htmlLink = None,
      hangoutLink = None, conferenceData = None, status = None, eventType = None,
      visibility = None, colorId = None, recurringEventId = None, recurrence = None\<rparr>"

definition evSync :: CalendarEvent where
  "evSync = blankEvent
     \<lparr>event_id := Some ''e1'', summary := Some ''Team Sync'',
      start := Some \<lparr>dateTime = Some ''2025-01-02T10:00:00Z'', date = None\<rparr>\<rparr>"

definition evNoStart :: CalendarEvent where
  "evNoStart = blankEvent
     \<lparr>event_id := Some ''e2'', summary := Some ''Cancelled sync'', status := Some ''cancelled''\<rparr>"

definition evOld :: CalendarEvent where
  "evOld = blankEvent
     \<lparr>event_id := Some ''e3'', summary := Some ''Archive day'',
      start := Some \<lparr>dateTime = Some ''1969-12-31T00:00:00Z'', date = None\<rparr>\<rparr>"

definition evLunch :: CalendarEvent where
  "evLunch = blankEvent
     \<lparr>event_id := Some ''e4'', summary := Some ''Lunch'',
      start := Some \<lparr>dateTime = Some ''2025-01-01T12:00:00Z'', date = None\<rparr>\<rparr>"

definition calWork :: CalendarListItem where
  "calWork = \<lparr>cal_id = ''work'', cal_summary = ''Work'', accessRole = ''owner''\<rparr>"

definition calHome :: CalendarListItem where
  "calHome = \<lparr>cal_id = ''home'', cal_summary = ''Home'', accessRole = ''reader''\<rparr>"

definition calShared :: CalendarListItem where
  "calShared = \<lparr>cal_id = ''shared'', cal_summary = ''Shared'', accessRole = ''freeBusyReader''\<rparr>"

definition calTeam :: CalendarListItem where
  "calTeam = \<lparr>cal_id = ''team'', cal_summary = ''Team'', accessRole = ''writer''\<rparr>"

text \<open>
  A service with four calendars: listing the events of \<^verbatim>\<open>home\<close> raises, \<^verbatim>\<open>work\<close>
  returns two events and a continuation token, \<^verbatim>\<open>team\<close> returns two events.
\<close>

definition exampleClient :: "string \<Rightarrow> GoogleCalendarClient" where
  "exampleClient token =
     \<lparr>listCalendars = Inr [calWork, calHome, calShared, calTeam],
      listEvents = (\<lambda>p.
        if p_calendarId p = ''work''
        then Inr \<lparr>items = [evSync, evNoStart], nextPageToken = Some ''NEXT''\<rparr>
        else if p_calendarId p = ''home'' then Inl ''Not Found''
        else if p_calendarId p = ''team''
        then Inr \<lparr>items = [evOld, evLunch], nextPageToken = None\<rparr>
        else Inr \<lparr>items = [], nextPageToken = None\<rparr>)\<rparr>"

definition exampleContext :: Context where
  "exampleContext = \<lparr>providerToken = Some ''secret''\<rparr>"

text \<open>The request with every option left out: the schema's defaults.\<close>

definition defaultArgs :: Args where
  "defaultArgs =
     \<lparr>calendarId = IdString ''all'', timeMin = None, timeMax = None, query = None,
      maxResults = 50, eventTypes = None, orderBy = None, pageToken = None,
      arg_fields = None, singleEvents = True\<rparr>"


section \<open>Properties\<close>

subsection \<open>The sort and the cap keep the events they are given\<close>

lemma set_insertBy: "set (insertBy cmp x xs) = insert x (set xs)"
  by (induction xs) auto

lemma set_arraySort: "set (arraySort cmp xs) = set xs"
  by (induction xs) (simp_all add: arraySort_def set_insertBy)

lemma set_sortEvents: "set (sortEvents J args evs) = set evs"
  by (simp add: sortEvents_def set_arraySort)


lemma length_insertBy: "length (insertBy cmp x xs) = Suc (length xs)"
  by (induction xs) auto

lemma length_arraySort: "length (arraySort cmp xs) = length xs"
  by (induction xs) (simp_all add: arraySort_def length_insertBy)

lemma length_sortEvents: "length (sortEvents J args evs) = length evs"
  by (simp add: sortEvents_def length_arraySort)

lemma length_mergedEvents:
  "length (mergedEvents J args results) = length (filterEvents J args (flatEvents results))"
  by (simp add: mergedEvents_def length_sortEvents)

subsection \<open>The paths through the handler\<close>

lemma searchCalls_eq:
  "searchCalls client args calendars = map (\<lambda>c. CallListEvents (listEventsParams args c)) calendars"
  by (induction calendars) (simp_all add: searchCalls_def searchAll_def searchCalendar_def Let_def)

lemma calendarsToSearch_calls:
  "snd (calendarsToSearch client args) =
     (if calendarId args = IdString ''all'' then [CallListCalendars] else [])"
  by (simp add: calendarsToSearch_def split: sum.splits CalendarIdArg.splits)

lemma handler_pagination_error:
  assumes "providerToken ctx = Some token" and "token \<noteq> []"
    and "calendarsToSearch (newClient token) args = (Inr calendars, calls)"
    and "truthy (pageToken args)" and "length calendars \<noteq> 1"
  shows "handler J newClient args ctx = (errorResult paginationErrorText, calls)"
  using assms by (simp add: handler_def)

lemma handler_success:
  assumes "providerToken ctx = Some token" and "token \<noteq> []"
    and "calendarsToSearch (newClient token) args = (Inr calendars, calls)"
    and "\<not> (truthy (pageToken args) \<and> length calendars \<noteq> 1)"
  shows "handler J newClient args ctx =
           (successResult J args calendars (searchResults (newClient token) args calendars),
            calls @ searchCalls (newClient token) args calendars)"
  using assms by (auto simp add: handler_def Let_def)

lemma handler_result:
  assumes "providerToken ctx = Some token" and "token \<noteq> []"
    and "fst (calendarsToSearch (newClient token) args) = Inr calendars"
    and "\<not> (truthy (pageToken args) \<and> length calendars \<noteq> 1)"
  shows "fst (handler J newClient args ctx) =
           successResult J args calendars (searchResults (newClient token) args calendars)"
proof -
  obtain calls where "calendarsToSearch (newClient token) args = (Inr calendars, calls)"
    using assms(3) by (cases "calendarsToSearch (newClient token) args") simp
  then show ?thesis using assms(1,2,4) by (simp add: handler_success)
qed


lemma failedCalendars_fetchFailed:
  "failedCalendars (searchResults client args calendars)
     = map cal_summary (filter (fetchFailed client args) calendars)"
  by (induction calendars)
     (auto simp add: failedCalendars_def searchResults_def searchAll_def searchCalendar_def
        fetchFailed_def truthy_def Let_def split: sum.splits)

lemma searchedCalendars_fetchFailed:
  "searchedCalendars (searchResults client args calendars)
     = map cal_summary (filter (\<lambda>calendar. \<not> fetchFailed client args calendar) calendars)"
  by (induction calendars)
     (auto simp add: searchedCalendars_def searchResults_def searchAll_def searchCalendar_def
        fetchFailed_def truthy_def Let_def split: sum.splits)

lemma ex_all_calendars:
  "calendarsToSearch (exampleClient t) (defaultArgs\<lparr>pageToken := pt\<rparr>) =
     (Inr [calWork, calHome, calTeam], [CallListCalendars])"
  by (simp add: calendarsToSearch_def exampleClient_def defaultArgs_def calWork_def calHome_def
      calShared_def calTeam_def)

subsection \<open>The continuation token under a text query\<close>

text \<open>
  The two places of a successful result that can carry the token of a single
  calendar: the page-token line of the text is pushed only without a text query; the
  structured content takes the token of the single result as it is.
\<close>

lemma pageTokenLine_gated_by_query:
  "truthy (query args) \<Longrightarrow> pageTokenLine tok \<notin> set (paginationLines args single evs m)"
  by (simp add: paginationLines_def Let_def pageTokenLine_def increaseLine_def)

lemma structured_token_not_gated:
  "map_option sc_nextPageToken (structuredContent (successResult J args [calendar] [r]))
     = Some (sr_nextPageToken r)"
  by (simp add: successResult_def singleCalendarResult_def)

text \<open>
  Claim C1 at a concrete request: one calendar (\<^verbatim>\<open>work\<close>), the query
  \<^verbatim>\<open>sync\<close>, two matching events returned, and the service's answer carries the
  continuation token \<^verbatim>\<open>NEXT\<close>. The rendered text leaves the token out, as the
  claim says; the structured content carries it.
\<close>

theorem text_query_token_in_structured_payload:
  "calendarsToSearch (exampleClient ''secret'')
       (defaultArgs\<lparr>calendarId := IdString ''work'', query := Some ''sync''\<rparr>)
     = (Inr [calendarOfId ''work''], [])
   \<and> map sr_nextPageToken (searchResults (exampleClient ''secret'')
         (defaultArgs\<lparr>calendarId := IdString ''work'', query := Some ''sync''\<rparr>)
         [calendarOfId ''work'']) = [Some ''NEXT'']
   \<and> length (cappedEvents exampleRuntime
         (defaultArgs\<lparr>calendarId := IdString ''work'', query := Some ''sync''\<rparr>)
         (searchResults (exampleClient ''secret'')
           (defaultArgs\<lparr>calendarId := IdString ''work'', query := Some ''sync''\<rparr>)
           [calendarOfId ''work''])) = 2
   \<and> \<not> isError (fst (handler exampleRuntime exampleClient
         (defaultArgs\<lparr>calendarId := IdString ''work'', query := Some ''sync''\<rparr>) exampleContext))
   \<and> \<not> sublist ''NEXT'' (content_text (fst (handler exampleRuntime exampleClient
         (defaultArgs\<lparr>calendarId := IdString ''work'', query := Some ''sync''\<rparr>) exampleContext)))
   \<and> map_option sc_nextPageToken (structuredContent (fst (handler exampleRuntime exampleClient
         (defaultArgs\<lparr>calendarId := IdString ''work'', query := Some ''sync''\<rparr>) exampleContext)))
       = Some (Some ''NEXT'')"
  by code_simp

subsection \<open>A continuation token with several calendars\<close>

text \<open>
  Claim C2, as stated, at a concrete request: the selector is \<^verbatim>\<open>'all'\<close>, a page token
  is supplied and three calendars are resolved. The handler fails with the pagination
  message, but the calendar listing, a network call, has been issued by then: the
  failure is not raised before any network call.
\<close>

theorem pagination_all_selector_lists_calendars_first:
  "pageToken (defaultArgs\<lparr>pageToken := Some ''NEXT''\<rparr>) = Some ''NEXT''
   \<and> fst (calendarsToSearch (exampleClient ''secret'') (defaultArgs\<lparr>pageToken := Some ''NEXT''\<rparr>))
       = Inr [calWork, calHome, calTeam]
   \<and> handler exampleRuntime exampleClient (defaultArgs\<lparr>pageToken := Some ''NEXT''\<rparr>) exampleContext
       = (errorResult paginationErrorText, [CallListCalendars])"
  by (simp add: ex_all_calendars handler_def exampleContext_def truthy_def)

text \<open>
  Claim C2, amended: with a credential present, a non-empty page token and a selector
  that resolves to a number of calendars other than one, the handler returns the
  pagination error; no event listing is requested, and the only network call that
  can come before the failure is the calendar listing that resolves \<^verbatim>\<open>'all'\<close>
  (none at all for an explicit id or list of ids).
\<close>

theorem pagination_requires_single_calendar:
  assumes "providerToken ctx = Some token" and "token \<noteq> []"
    and "truthy (pageToken args)"
    and "fst (calendarsToSearch (newClient token) args) = Inr calendars"
    and "length calendars \<noteq> 1"
  shows "fst (handler J newClient args ctx) = errorResult paginationErrorText
         \<and> isError (fst (handler J newClient args ctx))
         \<and> snd (handler J newClient args ctx) =
             (if calendarId args = IdString ''all'' then [CallListCalendars] else [])
         \<and> \<not> list_ex isListEvents (snd (handler J newClient args ctx))"
proof -
  obtain calls where c: "calendarsToSearch (newClient token) args = (Inr calendars, calls)"
    using assms(4) by (cases "calendarsToSearch (newClient token) args") simp
  have calls: "calls = (if calendarId args = IdString ''all'' then [CallListCalendars] else [])"
    using calendarsToSearch_calls [of "newClient token" args] c by simp
  have "handler J newClient args ctx = (errorResult paginationErrorText, calls)"
    using assms(1,2,3,5) c by (simp add: handler_pagination_error)
  then show ?thesis using calls by (simp add: errorResult_def)
qed

theorem pagination_requires_single_calendar_witness:
  "providerToken exampleContext = Some ''secret'' \<and> ''secret'' \<noteq> []
   \<and> truthy (pageToken (defaultArgs\<lparr>calendarId := IdArray [''work'', ''home''], pageToken := Some ''NEXT''\<rparr>))
   \<and> fst (calendarsToSearch (exampleClient ''secret'')
            (defaultArgs\<lparr>calendarId := IdArray [''work'', ''home''], pageToken := Some ''NEXT''\<rparr>))
       = Inr [calendarOfId ''work'', calendarOfId ''home'']
   \<and> length [calendarOfId ''work'', calendarOfId ''home''] \<noteq> 1
   \<and> fst (handler exampleRuntime exampleClient
            (defaultArgs\<lparr>calendarId := IdArray [''work'', ''home''], pageToken := Some ''NEXT''\<rparr>)
            exampleContext) = errorResult paginationErrorText
   \<and> snd (handler exampleRuntime exampleClient
            (defaultArgs\<lparr>calendarId := IdArray [''work'', ''home''], pageToken := Some ''NEXT''\<rparr>)
            exampleContext) = []"
proof -
  let ?args = "defaultArgs\<lparr>calendarId := IdArray [''work'', ''home''], pageToken := Some ''NEXT''\<rparr>"
  have h1: "providerToken exampleContext = Some ''secret''" by (simp add: exampleContext_def)
  have h3: "truthy (pageToken ?args)" by (simp add: truthy_def)
  have h4: "fst (calendarsToSearch (exampleClient ''secret'') ?args)
              = Inr [calendarOfId ''work'', calendarOfId ''home'']"
    by (simp add: calendarsToSearch_def defaultArgs_def)
  have c: "calendarId ?args \<noteq> IdString ''all''" by (simp add: defaultArgs_def)
  show ?thesis
    using pagination_requires_single_calendar
      [where ctx = exampleContext and token = "''secret''" and args = ?args
         and newClient = exampleClient and calendars = "[calendarOfId ''work'', calendarOfId ''home'']"
         and J = exampleRuntime] h1 h3 h4 c
    by simp
qed

subsection \<open>Failed calendars in the rendered summary\<close>

lemma in_join_sublist: "x \<in> set xs \<Longrightarrow> sublist x (join sep xs)"
proof (induction sep xs rule: join.induct)
  case (1 sep)
  then show ?case by simp
next
  case (2 sep y)
  then show ?case by simp
next
  case (3 sep y z zs)
  show ?case
  proof (cases "x = y")
    case True
    then show ?thesis by simp
  next
    case False
    then have "sublist x (join sep (z # zs))" using 3 by simp
    then obtain ps ss where "join sep (z # zs) = ps @ x @ ss"
      by (auto simp add: sublist_def)
    then have "join sep (y # z # zs) = (y @ sep @ ps) @ x @ ss" by simp
    then show ?thesis unfolding sublist_def by blast
  qed
qed

text \<open>
  The lines of the rendered text are told apart by how they begin: an event line
  begins with a dash, its secondary lines with two spaces, and the closing lines
  with a line break.
\<close>

lemma formatEventLine_dash: "\<exists>rest. formatEventLine event = CHR ''-'' # rest"
  by (simp add: formatEventLine_def Let_def split: option.splits)

lemma no_failed_prefix_eventLines:
  "l \<in> set (eventLines event) \<Longrightarrow> \<not> prefix ''(Failed to search: '' l"
  using formatEventLine_dash [of event]
  by (auto simp add: eventLines_def split: option.splits if_splits)

lemma no_failed_prefix_resultLines:
  "l \<in> set (resultLines evs m) \<Longrightarrow> \<not> prefix ''(Failed to search: '' l"
  by (auto simp add: resultLines_def foundLine_def dest: no_failed_prefix_eventLines
      split: if_splits)

lemma no_failed_prefix_paginationLines:
  "l \<in> set (paginationLines args single evs m) \<Longrightarrow> \<not> prefix ''(Failed to search: '' l"
  by (auto simp add: paginationLines_def Let_def pageTokenLine_def increaseLine_def newline_def
      split: if_splits option.splits)

lemma no_failed_prefix_noteLine: "\<not> prefix ''(Failed to search: '' noteLine"
  by (simp add: noteLine_def newline_def)

lemma no_failed_prefix_summaryLines:
  assumes "\<not> (calendarId args = IdString ''all'' \<and> 1 < length (searchedCalendars results)
              \<and> failedCalendars results \<noteq> [])"
    and "l \<in> set (summaryLines args results)"
  shows "\<not> prefix ''(Failed to search: '' l"
  using assms by (auto simp add: summaryLines_def split: if_splits)

lemma no_failed_prefix_renderLines:
  assumes "\<not> (calendarId args = IdString ''all'' \<and> 1 < length (searchedCalendars results)
              \<and> failedCalendars results \<noteq> [])"
    and "l \<in> set (renderLines J args calendars results)"
  shows "\<not> prefix ''(Failed to search: '' l"
  using assms no_failed_prefix_summaryLines no_failed_prefix_resultLines
    no_failed_prefix_paginationLines no_failed_prefix_noteLine
  by (auto simp add: renderLines_def)

text \<open>
  Claim C3, as stated, at a concrete request: the selector is the list of ids
  \<^verbatim>\<open>work\<close> and \<^verbatim>\<open>home\<close>, and the listing of \<^verbatim>\<open>home\<close> raises. The call
  succeeds and \<^verbatim>\<open>home\<close> is the one failed calendar, yet its name is nowhere in the
  rendered text.
\<close>

theorem failed_calendars_not_listed_for_id_list:
  "calendarsToSearch (exampleClient ''secret'') (defaultArgs\<lparr>calendarId := IdArray [''work'', ''home'']\<rparr>)
     = (Inr [calendarOfId ''work'', calendarOfId ''home''], [])
   \<and> failedCalendars (searchResults (exampleClient ''secret'')
         (defaultArgs\<lparr>calendarId := IdArray [''work'', ''home'']\<rparr>)
         [calendarOfId ''work'', calendarOfId ''home'']) = [''home'']
   \<and> \<not> isError (fst (handler exampleRuntime exampleClient
         (defaultArgs\<lparr>calendarId := IdArray [''work'', ''home'']\<rparr>) exampleContext))
   \<and> \<not> sublist ''home'' (content_text (fst (handler exampleRuntime exampleClient
         (defaultArgs\<lparr>calendarId := IdArray [''work'', ''home'']\<rparr>) exampleContext)))"
  by code_simp

text \<open>
  Claim C3, amended: whenever the search completes, the call is not an error and the
  text is the rendered lines joined by line breaks. When the selector is
  \<^verbatim>\<open>'all'\<close>, more than one calendar was searched without a failure and at
  least one fetch failed (the event listing raised, with a non-empty message), one
  of the lines lists the failed calendars by display name, in the order of the
  calendars. In every other case (a single id, a list of ids, at most one calendar
  without a failure, or no failed fetch) no line of the text begins as that line
  does: the failed calendars are not listed. The source pushes the line only inside
  the block guarded by \<^verbatim>\<open>args.calendarId === 'all' && searchedCalendars.length > 1\<close>.
\<close>

theorem failed_calendars_listed_for_all_selector:
  assumes "providerToken ctx = Some token" and "token \<noteq> []"
    and "fst (calendarsToSearch (newClient token) args) = Inr calendars"
    and "\<not> (truthy (pageToken args) \<and> length calendars \<noteq> 1)"
    and "failed = filter (fetchFailed (newClient token) args) calendars"
    and "answered = filter (\<lambda>calendar. \<not> fetchFailed (newClient token) args calendar) calendars"
    and "results = searchResults (newClient token) args calendars"
  shows "\<not> isError (fst (handler J newClient args ctx))
       \<and> content_text (fst (handler J newClient args ctx))
           = join newline (renderLines J args calendars results)
       \<and> (calendarId args = IdString ''all'' \<and> 1 < length answered \<and> failed \<noteq> [] \<longrightarrow>
            ''(Failed to search: '' @ join '', '' (map cal_summary failed) @ '')''
              \<in> set (renderLines J args calendars results)
            \<and> sublist (''(Failed to search: '' @ join '', '' (map cal_summary failed) @ '')'')
                (content_text (fst (handler J newClient args ctx))))
       \<and> (\<not> (calendarId args = IdString ''all'' \<and> 1 < length answered \<and> failed \<noteq> []) \<longrightarrow>
            (\<forall>l \<in> set (renderLines J args calendars results).
               \<not> prefix ''(Failed to search: '' l))"
proof -
  have h: "fst (handler J newClient args ctx) = successResult J args calendars results"
    using assms(1,2,3,4,7) by (simp add: handler_result)
  have noerr: "\<not> isError (fst (handler J newClient args ctx))"
    using h by (simp add: successResult_def)
  have rendered: "content_text (fst (handler J newClient args ctx))
                    = join newline (renderLines J args calendars results)"
    using h by (simp add: successResult_def)
  have fc: "failedCalendars results = map cal_summary failed"
    using assms(5,7) by (simp add: failedCalendars_fetchFailed)
  have sc: "length (searchedCalendars results) = length answered"
    using assms(6,7) by (simp add: searchedCalendars_fetchFailed)
  have listed: "''(Failed to search: '' @ join '', '' (map cal_summary failed) @ '')''
                  \<in> set (renderLines J args calendars results)
                \<and> sublist (''(Failed to search: '' @ join '', '' (map cal_summary failed) @ '')'')
                    (content_text (fst (handler J newClient args ctx)))"
    if "calendarId args = IdString ''all''" and "1 < length answered" and "failed \<noteq> []"
  proof -
    have line: "''(Failed to search: '' @ join '', '' (map cal_summary failed) @ '')''
                  \<in> set (renderLines J args calendars results)"
      using that fc sc by (simp add: renderLines_def summaryLines_def failedLine_def)
    then show ?thesis using in_join_sublist [OF line, of newline] rendered by simp
  qed
  have absent: "\<forall>l \<in> set (renderLines J args calendars results).
                  \<not> prefix ''(Failed to search: '' l"
    if "\<not> (calendarId args = IdString ''all'' \<and> 1 < length answered \<and> failed \<noteq> [])"
  proof -
    have "\<not> (calendarId args = IdString ''all'' \<and> 1 < length (searchedCalendars results)
              \<and> failedCalendars results \<noteq> [])"
      using that fc sc by simp
    then show ?thesis using no_failed_prefix_renderLines by blast
  qed
  from noerr rendered listed absent show ?thesis by blast
qed

theorem failed_calendars_listed_for_all_selector_witness:
  "providerToken exampleContext = Some ''secret'' \<and> ''secret'' \<noteq> []
   \<and> fst (calendarsToSearch (exampleClient ''secret'') defaultArgs) = Inr [calWork, calHome, calTeam]
   \<and> \<not> truthy (pageToken defaultArgs)
   \<and> filter (fetchFailed (exampleClient ''secret'') defaultArgs) [calWork, calHome, calTeam] = [calHome]
   \<and> filter (\<lambda>calendar. \<not> fetchFailed (exampleClient ''secret'') defaultArgs calendar)
        [calWork, calHome, calTeam] = [calWork, calTeam]
   \<and> calendarId defaultArgs = IdString ''all''
   \<and> \<not> isError (fst (handler exampleRuntime exampleClient defaultArgs exampleContext))
   \<and> sublist ''(Failed to search: Home)''
        (content_text (fst (handler exampleRuntime exampleClient defaultArgs exampleContext)))
   \<and> fst (calendarsToSearch (exampleClient ''secret'')
            (defaultArgs\<lparr>calendarId := IdArray [''work'', ''home'']\<rparr>))
       = Inr [calendarOfId ''work'', calendarOfId ''home'']
   \<and> filter (fetchFailed (exampleClient ''secret'')
               (defaultArgs\<lparr>calendarId := IdArray [''work'', ''home'']\<rparr>))
        [calendarOfId ''work'', calendarOfId ''home''] = [calendarOfId ''home'']
   \<and> list_all (\<lambda>l. \<not> prefix ''(Failed to search: '' l)
        (renderLines exampleRuntime (defaultArgs\<lparr>calendarId := IdArray [''work'', ''home'']\<rparr>)
           [calendarOfId ''work'', calendarOfId ''home'']
           (searchResults (exampleClient ''secret'')
              (defaultArgs\<lparr>calendarId := IdArray [''work'', ''home'']\<rparr>)
              [calendarOfId ''work'', calendarOfId ''home'']))"
proof -
  let ?ids = "defaultArgs\<lparr>calendarId := IdArray [''work'', ''home'']\<rparr>"
  have h1: "providerToken exampleContext = Some ''secret''" by (simp add: exampleContext_def)
  have a3: "fst (calendarsToSearch (exampleClient ''secret'') defaultArgs) = Inr [calWork, calHome, calTeam]"
    using ex_all_calendars [of "''secret''" None] by (simp add: defaultArgs_def)
  have a4: "\<not> truthy (pageToken defaultArgs)" by (simp add: defaultArgs_def truthy_def)
  have a5: "filter (fetchFailed (exampleClient ''secret'') defaultArgs) [calWork, calHome, calTeam]
              = [calHome]"
    by code_simp
  have a6: "filter (\<lambda>calendar. \<not> fetchFailed (exampleClient ''secret'') defaultArgs calendar)
              [calWork, calHome, calTeam] = [calWork, calTeam]"
    by code_simp
  have a7: "calendarId defaultArgs = IdString ''all''" by (simp add: defaultArgs_def)
  have name: "cal_summary calHome = ''Home''" by (simp add: calHome_def)
  note all = failed_calendars_listed_for_all_selector
    [where ctx = exampleContext and token = "''secret''" and newClient = exampleClient
       and args = defaultArgs and calendars = "[calWork, calHome, calTeam]"
       and failed = "[calHome]" and answered = "[calWork, calTeam]" and J = exampleRuntime
       and results = "searchResults (exampleClient ''secret'') defaultArgs [calWork, calHome, calTeam]"]
  have listed: "\<not> isError (fst (handler exampleRuntime exampleClient defaultArgs exampleContext))
                \<and> sublist ''(Failed to search: Home)''
                    (content_text (fst (handler exampleRuntime exampleClient defaultArgs exampleContext)))"
    using all h1 a3 a4 a5 a6 a7 name by auto
  have b3: "fst (calendarsToSearch (exampleClient ''secret'') ?ids)
              = Inr [calendarOfId ''work'', calendarOfId ''home'']"
    by (simp add: calendarsToSearch_def defaultArgs_def)
  have b4: "\<not> truthy (pageToken ?ids)" by (simp add: defaultArgs_def truthy_def)
  have b5: "filter (fetchFailed (exampleClient ''secret'') ?ids)
              [calendarOfId ''work'', calendarOfId ''home''] = [calendarOfId ''home'']"
    by code_simp
  have b7: "calendarId ?ids \<noteq> IdString ''all''" by (simp add: defaultArgs_def)
  note ids = failed_calendars_listed_for_all_selector
    [where ctx = exampleContext and token = "''secret''" and newClient = exampleClient
       and args = ?ids and calendars = "[calendarOfId ''work'', calendarOfId ''home'']"
       and failed = "[calendarOfId ''home'']" and J = exampleRuntime
       and answered = "filter (\<lambda>calendar. \<not> fetchFailed (exampleClient ''secret'') ?ids calendar)
                          [calendarOfId ''work'', calendarOfId ''home'']"
       and results = "searchResults (exampleClient ''secret'') ?ids
                        [calendarOfId ''work'', calendarOfId ''home'']"]
  have absent: "list_all (\<lambda>l. \<not> prefix ''(Failed to search: '' l)
        (renderLines exampleRuntime ?ids [calendarOfId ''work'', calendarOfId ''home'']
           (searchResults (exampleClient ''secret'') ?ids
              [calendarOfId ''work'', calendarOfId ''home'']))"
    using ids h1 b3 b4 b5 b7 by (simp add: list_all_iff)
  from h1 a3 a4 a5 a6 a7 listed b3 b5 absent show ?thesis by simp
qed

subsection \<open>The local text filter\<close>







subsection \<open>The total limit\<close>


























subsection \<open>Failures of single calendars\<close>

lemma passing_event_is_returned:
  assumes "e \<in> set (filterEvents J args (flatEvents results))"
    and "length (filterEvents J args (flatEvents results)) \<le> maxResults args"
  shows "e \<in> set (cappedEvents J args results)"
proof -
  have "length (mergedEvents J args results) \<le> maxResults args"
    using assms(2) by (simp add: length_mergedEvents)
  then have "cappedEvents J args results = mergedEvents J args results"
    by (simp add: cappedEvents_def)
  then show ?thesis using assms(1) by (simp add: mergedEvents_def set_sortEvents)
qed

text \<open>
  Claim C6, as stated, at a concrete request: selector \<^verbatim>\<open>'all'\<close> with a limit of
  one event. The listing of \<^verbatim>\<open>home\<close> raises and that of \<^verbatim>\<open>work\<close> returns two
  events; the call succeeds, but the one event returned is the earliest of
  \<^verbatim>\<open>team\<close>: neither event of \<^verbatim>\<open>work\<close> is in the result.
\<close>

theorem answering_calendar_events_dropped_by_cap:
  "fst (calendarsToSearch (exampleClient ''secret'') (defaultArgs\<lparr>maxResults := 1\<rparr>))
     = Inr [calWork, calHome, calTeam]
   \<and> listEvents (exampleClient ''secret'') (listEventsParams (defaultArgs\<lparr>maxResults := 1\<rparr>) calHome)
       = Inl ''Not Found''
   \<and> listEvents (exampleClient ''secret'') (listEventsParams (defaultArgs\<lparr>maxResults := 1\<rparr>) calWork)
       = Inr \<lparr>items = [evSync, evNoStart], nextPageToken = Some ''NEXT''\<rparr>
   \<and> \<not> isError (fst (handler exampleRuntime exampleClient (defaultArgs\<lparr>maxResults := 1\<rparr>)
        exampleContext))
   \<and> cappedEvents exampleRuntime (defaultArgs\<lparr>maxResults := 1\<rparr>)
        (searchResults (exampleClient ''secret'') (defaultArgs\<lparr>maxResults := 1\<rparr>)
           [calWork, calHome, calTeam])
       = [withCalendar calTeam evOld]
   \<and> map_option sc_items (structuredContent (fst (handler exampleRuntime exampleClient
        (defaultArgs\<lparr>maxResults := 1\<rparr>) exampleContext)))
       = Some [[(''id'', VString ''e3''), (''summary'', VString ''Archive day''),
                (''start'', VTime \<lparr>dateTime = Some ''1969-12-31T00:00:00Z'', date = None\<rparr>),
                (''calendarId'', VString ''team''), (''calendarName'', VString ''Team'')]]
   \<and> \<not> sublist ''sync'' (content_text (fst (handler exampleRuntime exampleClient
        (defaultArgs\<lparr>maxResults := 1\<rparr>) exampleContext)))"
  by code_simp

text \<open>
  Claim C6, amended: when the searches are run and the listing of one calendar raises
  while that of another returns, the handler's result is not an error; the failure
  is recorded in \<open>results\<close> as an entry with no events and the error message, and
  the calendars reported as searched are those whose fetch did not fail; every event
  of the calendar that answered is in the merged sequence as it stands before the
  text filter and the limit (each event tagged with its calendar). The items of the
  result are the projections of the first \<open>maxResults\<close> events of the sorted,
  filtered sequence: when that sequence is no longer than \<open>maxResults\<close>, every
  event of the calendar that answered and that passes the text filter (every event,
  without a text query) is among the returned events.
\<close>

theorem partial_failure_is_isolated:
  assumes "providerToken ctx = Some token" and "token \<noteq> []"
    and "fst (calendarsToSearch (newClient token) args) = Inr calendars"
    and "\<not> (truthy (pageToken args) \<and> length calendars \<noteq> 1)"
    and "failing \<in> set calendars"
    and "listEvents (newClient token) (listEventsParams args failing) = Inl message"
    and "ok \<in> set calendars"
    and "listEvents (newClient token) (listEventsParams args ok) = Inr result"
    and "results = searchResults (newClient token) args calendars"
  shows "\<not> isError (fst (handler J newClient args ctx))
       \<and> \<lparr>sr_calendar = failing, sr_events = [], sr_nextPageToken = None, sr_error = Some message\<rparr>
           \<in> set results
       \<and> map_option calendarsSearched (structuredContent (fst (handler J newClient args ctx)))
           = Some (map cal_summary
                     (filter (\<lambda>calendar. \<not> fetchFailed (newClient token) args calendar) calendars))
       \<and> set (map (withCalendar ok) (items result)) \<subseteq> set (flatEvents results)
       \<and> map_option sc_items (structuredContent (fst (handler J newClient args ctx)))
           = Some (map (\<lambda>event. pickFields event (projectionFields args))
                    (take (maxResults args)
                       (sortEvents J args (filterEvents J args (flatEvents results)))))
       \<and> (length (filterEvents J args (flatEvents results)) \<le> maxResults args \<longrightarrow>
            (\<forall>e \<in> set (items result).
               \<not> truthy (query args)
               \<or> (\<exists>q. query args = Some q \<and> matchesQuerySubstring J (withCalendar ok e) q) \<longrightarrow>
               withCalendar ok e
                 \<in> set (take (maxResults args)
                          (sortEvents J args (filterEvents J args (flatEvents results))))))"
proof -
  have h: "fst (handler J newClient args ctx) = successResult J args calendars results"
    using assms(1,2,3,4,9) by (simp add: handler_result)
  have noerr: "\<not> isError (fst (handler J newClient args ctx))"
    using h by (simp add: successResult_def)
  have "fst (searchCalendar (newClient token) args failing) =
          \<lparr>sr_calendar = failing, sr_events = [], sr_nextPageToken = None, sr_error = Some message\<rparr>"
    using assms(6) by (simp add: searchCalendar_def Let_def)
  then have recorded:
    "\<lparr>sr_calendar = failing, sr_events = [], sr_nextPageToken = None, sr_error = Some message\<rparr>
       \<in> set results"
    using assms(5,9) by (force simp add: searchResults_def searchAll_def)
  have searched:
    "map_option calendarsSearched (structuredContent (fst (handler J newClient args ctx)))
       = Some (map cal_summary
                 (filter (\<lambda>calendar. \<not> fetchFailed (newClient token) args calendar) calendars))"
    using h assms(9) by (simp add: successResult_def searchedCalendars_fetchFailed)
  have "sr_events (fst (searchCalendar (newClient token) args ok))
          = map (withCalendar ok) (items result)"
    using assms(8) by (simp add: searchCalendar_def Let_def)
  then have kept: "set (map (withCalendar ok) (items result)) \<subseteq> set (flatEvents results)"
    using assms(7,9) by (force simp add: flatEvents_def searchResults_def searchAll_def)
  have payload:
    "map_option sc_items (structuredContent (fst (handler J newClient args ctx)))
       = Some (map (\<lambda>event. pickFields event (projectionFields args))
                (take (maxResults args)
                   (sortEvents J args (filterEvents J args (flatEvents results)))))"
    using h by (simp add: successResult_def filteredItems_def cappedEvents_def mergedEvents_def)
  have returned:
    "withCalendar ok e
       \<in> set (take (maxResults args) (sortEvents J args (filterEvents J args (flatEvents results))))"
    if room: "length (filterEvents J args (flatEvents results)) \<le> maxResults args"
      and e: "e \<in> set (items result)"
      and pass: "\<not> truthy (query args)
                 \<or> (\<exists>q. query args = Some q \<and> matchesQuerySubstring J (withCalendar ok e) q)"
    for e
  proof -
    have inflat: "withCalendar ok e \<in> set (flatEvents results)"
      using kept e by auto
    have "withCalendar ok e \<in> set (filterEvents J args (flatEvents results))"
      using pass inflat by (auto simp add: filterEvents_def truthy_def split: option.splits)
    then have "withCalendar ok e \<in> set (cappedEvents J args results)"
      using room by (rule passing_event_is_returned)
    then show ?thesis by (simp add: cappedEvents_def mergedEvents_def)
  qed
  from noerr recorded searched kept payload returned show ?thesis by blast
qed

theorem partial_failure_is_isolated_witness:
  "providerToken exampleContext = Some ''secret'' \<and> ''secret'' \<noteq> []
   \<and> fst (calendarsToSearch (exampleClient ''secret'') defaultArgs) = Inr [calWork, calHome, calTeam]
   \<and> \<not> truthy (pageToken defaultArgs)
   \<and> \<not> truthy (query defaultArgs)
   \<and> listEvents (exampleClient ''secret'') (listEventsParams defaultArgs calHome) = Inl ''Not Found''
   \<and> listEvents (exampleClient ''secret'') (listEventsParams defaultArgs calWork)
       = Inr \<lparr>items = [evSync, evNoStart], nextPageToken = Some ''NEXT''\<rparr>
   \<and> length (filterEvents exampleRuntime defaultArgs
        (flatEvents (searchResults (exampleClient ''secret'') defaultArgs [calWork, calHome, calTeam])))
       = 4
   \<and> maxResults defaultArgs = 50
   \<and> \<not> isError (fst (handler exampleRuntime exampleClient defaultArgs exampleContext))
   \<and> \<lparr>sr_calendar = calHome, sr_events = [], sr_nextPageToken = None, sr_error = Some ''Not Found''\<rparr>
       \<in> set (searchResults (exampleClient ''secret'') defaultArgs [calWork, calHome, calTeam])
   \<and> map_option calendarsSearched
        (structuredContent (fst (handler exampleRuntime exampleClient defaultArgs exampleContext)))
       = Some [''Work'', ''Team'']
   \<and> withCalendar calWork evSync
       \<in> set (take (maxResults defaultArgs)
                (sortEvents exampleRuntime defaultArgs
                   (filterEvents exampleRuntime defaultArgs
                      (flatEvents (searchResults (exampleClient ''secret'') defaultArgs
                         [calWork, calHome, calTeam])))))
   \<and> withCalendar calWork evNoStart
       \<in> set (take (maxResults defaultArgs)
                (sortEvents exampleRuntime defaultArgs
                   (filterEvents exampleRuntime defaultArgs
                      (flatEvents (searchResults (exampleClient ''secret'') defaultArgs
                         [calWork, calHome, calTeam])))))"
proof -
  let ?results = "searchResults (exampleClient ''secret'') defaultArgs [calWork, calHome, calTeam]"
  let ?filtered = "filterEvents exampleRuntime defaultArgs (flatEvents ?results)"
  let ?returned = "take (maxResults defaultArgs) (sortEvents exampleRuntime defaultArgs ?filtered)"
  have h1: "providerToken exampleContext = Some ''secret''" by (simp add: exampleContext_def)
  have h3: "fst (calendarsToSearch (exampleClient ''secret'') defaultArgs) = Inr [calWork, calHome, calTeam]"
    using ex_all_calendars [of "''secret''" None] by (simp add: defaultArgs_def)
  have h4: "\<not> truthy (pageToken defaultArgs)" by (simp add: defaultArgs_def truthy_def)
  have q: "\<not> truthy (query defaultArgs)" by (simp add: defaultArgs_def truthy_def)
  have h6: "listEvents (exampleClient ''secret'') (listEventsParams defaultArgs calHome) = Inl ''Not Found''"
    by (simp add: exampleClient_def listEventsParams_def calHome_def)
  have h8: "listEvents (exampleClient ''secret'') (listEventsParams defaultArgs calWork)
              = Inr \<lparr>items = [evSync, evNoStart], nextPageToken = Some ''NEXT''\<rparr>"
    by (simp add: exampleClient_def listEventsParams_def calWork_def)
  have n: "length ?filtered = 4" by code_simp
  have m: "maxResults defaultArgs = 50" by (simp add: defaultArgs_def)
  have answered: "map cal_summary
                    (filter (\<lambda>calendar. \<not> fetchFailed (exampleClient ''secret'') defaultArgs calendar)
                       [calWork, calHome, calTeam]) = [''Work'', ''Team'']"
    by code_simp
  note t = partial_failure_is_isolated
    [where ctx = exampleContext and token = "''secret''" and newClient = exampleClient
       and args = defaultArgs and calendars = "[calWork, calHome, calTeam]"
       and failing = calHome and message = "''Not Found''" and ok = calWork
       and result = "\<lparr>items = [evSync, evNoStart], nextPageToken = Some ''NEXT''\<rparr>"
       and results = ?results and J = exampleRuntime]
  have c: "\<not> isError (fst (handler exampleRuntime exampleClient defaultArgs exampleContext))
       \<and> \<lparr>sr_calendar = calHome, sr_events = [], sr_nextPageToken = None, sr_error = Some ''Not Found''\<rparr>
           \<in> set ?results
       \<and> map_option calendarsSearched
            (structuredContent (fst (handler exampleRuntime exampleClient defaultArgs exampleContext)))
           = Some [''Work'', ''Team'']
       \<and> (\<forall>e \<in> set [evSync, evNoStart]. withCalendar calWork e \<in> set ?returned)"
    using t h1 h3 h4 h6 h8 q n m answered by simp
  then have "withCalendar calWork evSync \<in> set ?returned"
    and "withCalendar calWork evNoStart \<in> set ?returned"
    by simp_all
  with c h1 h3 h4 q h6 h8 n m show ?thesis by simp
qed

subsection \<open>The fetch planner\<close>

text \<open>
  Claim C7: the \<^verbatim>\<open>maxResults\<close> sent with every event listing is
  \<open>min (max (maxResults * m) f) 250\<close>, with \<open>m = 10\<close> and \<open>f = 100\<close> when a text query
  is present (supplied and non-empty, which is the source's test \<^verbatim>\<open>!!args.query\<close>)
  and \<open>m = 2\<close> and \<open>f = 10\<close> otherwise. It never exceeds 250, and it is the same for
  every calendar searched, whatever the selector and however many calendars there
  are: every event listing the search stage issues carries exactly this value.
\<close>

theorem fetch_cap_policy:
  "fetchMaxResults args =
     min (max (maxResults args * (if truthy (query args) then 10 else 2))
              (if truthy (query args) then 100 else 10)) 250
   \<and> fetchMaxResults args \<le> 250
   \<and> p_maxResults (listEventsParams args calendar) = fetchMaxResults args
   \<and> searchCalls client args calendars
       = map (\<lambda>c. CallListEvents (listEventsParams args c)) calendars
   \<and> (\<forall>call \<in> set (searchCalls client args calendars).
         \<exists>p. call = CallListEvents p \<and> p_maxResults p = fetchMaxResults args)"
proof -
  have cap: "fetchMaxResults args =
     min (max (maxResults args * (if truthy (query args) then 10 else 2))
              (if truthy (query args) then 100 else 10)) 250"
    by (simp add: fetchMaxResults_def fetchMultiplier_def minFetchAmount_def hasLocalQuery_def)
  have bound: "fetchMaxResults args \<le> 250"
    by (simp add: fetchMaxResults_def)
  have param: "p_maxResults (listEventsParams args c) = fetchMaxResults args" for c
    by (simp add: listEventsParams_def)
  have calls: "searchCalls client args calendars
                 = map (\<lambda>c. CallListEvents (listEventsParams args c)) calendars"
    by (rule searchCalls_eq)
  have every: "\<forall>call \<in> set (searchCalls client args calendars).
         \<exists>p. call = CallListEvents p \<and> p_maxResults p = fetchMaxResults args"
    using param by (auto simp add: calls)
  from cap bound param calls every show ?thesis by blast
qed

theorem fetch_cap_policy_witness:
  "fetchMaxResults (defaultArgs\<lparr>query := Some ''sync'', maxResults := 3\<rparr>) = 100
   \<and> fetchMaxResults (defaultArgs\<lparr>query := Some ''sync'', maxResults := 30\<rparr>) = 250
   \<and> fetchMaxResults (defaultArgs\<lparr>maxResults := 30\<rparr>) = 60
   \<and> fetchMaxResults (defaultArgs\<lparr>calendarId := IdString ''work'', maxResults := 30\<rparr>) = 60
   \<and> map (\<lambda>call. case call of CallListEvents p \<Rightarrow> p_maxResults p | CallListCalendars \<Rightarrow> 0)
         (searchCalls (exampleClient ''secret'') (defaultArgs\<lparr>maxResults := 30\<rparr>)
            [calWork, calHome, calTeam]) = [60, 60, 60]"
  using fetch_cap_policy [of "defaultArgs\<lparr>query := Some ''sync'', maxResults := 3\<rparr>"]
    fetch_cap_policy [of "defaultArgs\<lparr>query := Some ''sync'', maxResults := 30\<rparr>"]
    fetch_cap_policy [of "defaultArgs\<lparr>maxResults := 30\<rparr>" _ "exampleClient ''secret''"
                         "[calWork, calHome, calTeam]"]
    fetch_cap_policy [of "defaultArgs\<lparr>calendarId := IdString ''work'', maxResults := 30\<rparr>"]
  by (simp add: defaultArgs_def truthy_def)

subsection \<open>Start-time order\<close>









subsection \<open>Resolving the selector\<close>

text \<open>
  Claim C9: for the selector \<^verbatim>\<open>'all'\<close> the resolved calendars are exactly the
  listed calendars whose access role is owner, writer or reader, in the order of the
  listing; a calendar with any other role is left out. When the handler goes on to
  search (a credential is present and no page token is supplied), the event listings
  it issues are those of the resolved calendars, one each, in that order.
\<close>

theorem all_selector_keeps_readable:
  assumes "calendarId args = IdString ''all''"
    and "listCalendars client = Inr calendarList"
  shows "fst (calendarsToSearch client args) =
           Inr (filter (\<lambda>cal. accessRole cal \<in> {''owner'', ''writer'', ''reader''}) calendarList)
       \<and> (providerToken ctx = Some token \<and> token \<noteq> [] \<and> newClient token = client
            \<and> \<not> truthy (pageToken args) \<longrightarrow>
          snd (handler J newClient args ctx) =
            CallListCalendars
            # map (\<lambda>cal. CallListEvents (listEventsParams args cal))
                (filter (\<lambda>cal. accessRole cal \<in> {''owner'', ''writer'', ''reader''}) calendarList))"
proof -
  let ?readable = "filter (\<lambda>cal. accessRole cal \<in> {''owner'', ''writer'', ''reader''}) calendarList"
  have resolved: "calendarsToSearch client args = (Inr ?readable, [CallListCalendars])"
    using assms by (simp add: calendarsToSearch_def)
  have "snd (handler J newClient args ctx) =
          CallListCalendars # map (\<lambda>cal. CallListEvents (listEventsParams args cal)) ?readable"
    if "providerToken ctx = Some token" and "token \<noteq> []" and "newClient token = client"
      and "\<not> truthy (pageToken args)"
  proof -
    have "handler J newClient args ctx =
            (successResult J args ?readable (searchResults (newClient token) args ?readable),
             [CallListCalendars] @ searchCalls (newClient token) args ?readable)"
      using that resolved by (intro handler_success) simp_all
    then show ?thesis by (simp add: searchCalls_eq)
  qed
  then show ?thesis using resolved by simp
qed

theorem all_selector_keeps_readable_witness:
  "calendarId defaultArgs = IdString ''all''
   \<and> listCalendars (exampleClient ''secret'') = Inr [calWork, calHome, calShared, calTeam]
   \<and> accessRole calShared = ''freeBusyReader''
   \<and> fst (calendarsToSearch (exampleClient ''secret'') defaultArgs) = Inr [calWork, calHome, calTeam]
   \<and> snd (handler exampleRuntime exampleClient defaultArgs exampleContext) =
       CallListCalendars
       # map (\<lambda>cal. CallListEvents (listEventsParams defaultArgs cal)) [calWork, calHome, calTeam]"
proof -
  have h1: "calendarId defaultArgs = IdString ''all''" by (simp add: defaultArgs_def)
  have h2: "listCalendars (exampleClient ''secret'') = Inr [calWork, calHome, calShared, calTeam]"
    by (simp add: exampleClient_def)
  have h3: "providerToken exampleContext = Some ''secret''" by (simp add: exampleContext_def)
  have h4: "\<not> truthy (pageToken defaultArgs)" by (simp add: defaultArgs_def truthy_def)
  have r: "filter (\<lambda>cal. accessRole cal \<in> {''owner'', ''writer'', ''reader''})
             [calWork, calHome, calShared, calTeam] = [calWork, calHome, calTeam]"
    by (simp add: calWork_def calHome_def calShared_def calTeam_def)
  show ?thesis
    using all_selector_keeps_readable
      [OF h1 h2, of exampleContext "''secret''" exampleClient exampleRuntime] h1 h2 h3 h4 r
    by (simp add: calShared_def)
qed

subsection \<open>Field selection\<close>

lemma map_of_pickFields_acc:
  "map_of (foldl (\<lambda>result field.
              case eventProperty event field of
                Some v \<Rightarrow> AList.update field v result
              | None \<Rightarrow> result) acc fs) k
   = (if k \<in> set fs \<and> eventProperty event k \<noteq> None then eventProperty event k
      else map_of acc k)"
proof (induction fs arbitrary: acc)
  case Nil
  then show ?case by simp
next
  case (Cons f fs)
  then show ?case
    by (cases "eventProperty event f") (auto simp add: update_conv')
qed

lemma map_of_pickFields:
  "map_of (pickFields event fs) k = (if k \<in> set fs then eventProperty event k else None)"
  by (simp add: pickFields_def map_of_pickFields_acc)

lemma pickFields_default_nonempty: "pickFields event DEFAULT_FIELDS \<noteq> []"
proof
  assume "pickFields event DEFAULT_FIELDS = []"
  then have "map_of (pickFields event DEFAULT_FIELDS) ''calendarId'' = None" by simp
  moreover have "map_of (pickFields event DEFAULT_FIELDS) ''calendarId''
                   = Some (VString (ev_calendarId event))"
    by (simp add: map_of_pickFields DEFAULT_FIELDS_def eventProperty_def)
  ultimately show False by simp
qed

lemma update_fresh: "k \<notin> fst ` set al \<Longrightarrow> AList.update k v al = al @ [(k, v)]"
  by (induction al) auto

lemma foldl_pick_distinct:
  assumes "distinct fs" and "set fs \<inter> fst ` set acc = {}"
  shows "foldl (\<lambda>result field.
              case eventProperty event field of
                Some v \<Rightarrow> AList.update field v result
              | None \<Rightarrow> result) acc fs
         = acc @ List.map_filter (\<lambda>k. map_option (Pair k) (eventProperty event k)) fs"
  using assms
proof (induction fs arbitrary: acc)
  case Nil
  then show ?case by (simp add: List.map_filter_simps)
next
  case (Cons f fs)
  show ?case
  proof (cases "eventProperty event f")
    case None
    then show ?thesis using Cons by (simp add: List.map_filter_simps)
  next
    case (Some v)
    have fresh: "f \<notin> fst ` set acc" using Cons.prems(2) by auto
    have "set fs \<inter> fst ` set (acc @ [(f, v)]) = {}"
      using Cons.prems by auto
    then show ?thesis
      using Cons.IH [of "acc @ [(f, v)]"] Cons.prems(1) Some fresh
      by (simp add: List.map_filter_simps update_fresh)
  qed
qed

lemma map_filter_map: "List.map_filter f xs = List.map_filter (\<lambda>entry. entry) (map f xs)"
  by (induction xs) (simp_all add: List.map_filter_simps split: option.splits)

lemma pickFields_default: "pickFields event DEFAULT_FIELDS = defaultProjection event"
proof -
  have "distinct DEFAULT_FIELDS" by (simp add: DEFAULT_FIELDS_def)
  then have "pickFields event DEFAULT_FIELDS
               = List.map_filter (\<lambda>k. map_option (Pair k) (eventProperty event k)) DEFAULT_FIELDS"
    using foldl_pick_distinct [of DEFAULT_FIELDS "[]" event] by (simp add: pickFields_def)
  also have "\<dots> = List.map_filter (\<lambda>entry. entry)
                      (map (\<lambda>k. map_option (Pair k) (eventProperty event k)) DEFAULT_FIELDS)"
    by (rule map_filter_map)
  also have "map (\<lambda>k. map_option (Pair k) (eventProperty event k)) DEFAULT_FIELDS
               = [map_option (\<lambda>v. (''id'', VString v)) (event_id event),
                  map_option (\<lambda>v. (''summary'', VString v)) (summary event),
                  map_option (\<lambda>v. (''start'', VTime v)) (start event),
                  map_option (\<lambda>v. (''end'', VTime v)) (end_time event),
                  map_option (\<lambda>v. (''location'', VString v)) (location event),
                  map_option (\<lambda>v. (''htmlLink'', VString v)) (htmlLink event),
                  map_option (\<lambda>v. (''status'', VString v)) (status event),
                  map_option (\<lambda>v. (''attendees'', VAttendees v)) (attendees event),
                  Some (''calendarId'', VString (ev_calendarId event)),
                  Some (''calendarName'', VString (ev_calendarName event))]"
    by (simp add: DEFAULT_FIELDS_def eventProperty_def option.map_comp comp_def)
  finally show ?thesis by (simp add: defaultProjection_def)
qed

lemma projectionFields_empty: "projectionFields (args\<lparr>arg_fields := Some []\<rparr>) = DEFAULT_FIELDS"
  by (simp add: projectionFields_def)

lemma projectionFields_omitted: "projectionFields (args\<lparr>arg_fields := None\<rparr>) = DEFAULT_FIELDS"
  by (simp add: projectionFields_def)

lemma fetchMaxResults_fields [simp]:
  "fetchMaxResults (args\<lparr>arg_fields := x\<rparr>) = fetchMaxResults args"
  by (simp add: fetchMaxResults_def fetchMultiplier_def minFetchAmount_def hasLocalQuery_def)

lemma listEventsParams_fields [simp]:
  "listEventsParams (args\<lparr>arg_fields := x\<rparr>) = listEventsParams args"
  by (rule ext) (simp add: listEventsParams_def)

lemma searchCalendar_fields [simp]:
  "searchCalendar client (args\<lparr>arg_fields := x\<rparr>) = searchCalendar client args"
  by (rule ext) (simp add: searchCalendar_def)

lemma searchAll_fields [simp]:
  "searchAll client (args\<lparr>arg_fields := x\<rparr>) = searchAll client args"
  by (rule ext) (simp add: searchAll_def)

lemma searchResults_fields [simp]:
  "searchResults client (args\<lparr>arg_fields := x\<rparr>) = searchResults client args"
  by (rule ext) (simp add: searchResults_def)

lemma calendarsToSearch_fields [simp]:
  "calendarsToSearch client (args\<lparr>arg_fields := x\<rparr>) = calendarsToSearch client args"
  by (simp add: calendarsToSearch_def)

lemma mergedEvents_fields [simp]:
  "mergedEvents J (args\<lparr>arg_fields := x\<rparr>) = mergedEvents J args"
  by (rule ext) (simp add: mergedEvents_def sortEvents_def filterEvents_def)

lemma cappedEvents_fields [simp]:
  "cappedEvents J (args\<lparr>arg_fields := x\<rparr>) = cappedEvents J args"
  by (rule ext) (simp add: cappedEvents_def)

lemma hasMore_fields [simp]:
  "hasMore J (args\<lparr>arg_fields := x\<rparr>) = hasMore J args"
  by (rule ext) (simp add: hasMore_def)

lemma renderLines_fields [simp]:
  "renderLines J (args\<lparr>arg_fields := x\<rparr>) = renderLines J args"
  by (rule ext, rule ext) (simp add: renderLines_def summaryLines_def paginationLines_def)

lemma successResult_fields:
  assumes "projectionFields (args\<lparr>arg_fields := x\<rparr>) = projectionFields (args\<lparr>arg_fields := y\<rparr>)"
  shows "successResult J (args\<lparr>arg_fields := x\<rparr>) calendars results
           = successResult J (args\<lparr>arg_fields := y\<rparr>) calendars results"
  using assms by (simp add: successResult_def filteredItems_def)

lemma handler_fields:
  assumes "projectionFields (args\<lparr>arg_fields := x\<rparr>) = projectionFields (args\<lparr>arg_fields := y\<rparr>)"
  shows "handler J newClient (args\<lparr>arg_fields := x\<rparr>) ctx
           = handler J newClient (args\<lparr>arg_fields := y\<rparr>) ctx"
  using successResult_fields [OF assms]
  by (simp add: handler_def searchResults_def searchCalls_def Let_def
      split: option.splits prod.splits sum.splits)

text \<open>
  Claim C10: an empty \<^verbatim>\<open>fields\<close> list selects the default fields, so that the
  handler answers exactly as it does when \<^verbatim>\<open>fields\<close> is left out. Each projected
  record is then the default projection of its event: its id, summary, start, end,
  location, htmlLink, status and attendees where the event has them, and its
  calendar id and calendar name, in this order and nothing else; the items of a
  completed search are these records of the returned events. No projected record
  is empty.
\<close>

theorem empty_field_selection_uses_defaults:
  "projectionFields (args\<lparr>arg_fields := Some []\<rparr>) =
     [''id'', ''summary'', ''start'', ''end'', ''location'', ''htmlLink'', ''status'',
      ''attendees'', ''calendarId'', ''calendarName'']
   \<and> handler J newClient (args\<lparr>arg_fields := Some []\<rparr>) ctx
       = handler J newClient (args\<lparr>arg_fields := None\<rparr>) ctx
   \<and> pickFields event (projectionFields (args\<lparr>arg_fields := Some []\<rparr>)) = defaultProjection event
   \<and> (providerToken ctx = Some token \<and> token \<noteq> []
        \<and> fst (calendarsToSearch (newClient token) args) = Inr calendars
        \<and> \<not> (truthy (pageToken args) \<and> length calendars \<noteq> 1)
        \<and> results = searchResults (newClient token) args calendars \<longrightarrow>
      map_option sc_items
         (structuredContent (fst (handler J newClient (args\<lparr>arg_fields := Some []\<rparr>) ctx)))
        = Some (map defaultProjection (cappedEvents J args results)))
   \<and> [] \<notin> set (filteredItems J (args\<lparr>arg_fields := Some []\<rparr>) results)"
proof -
  let ?args = "args\<lparr>arg_fields := Some []\<rparr>"
  have names: "projectionFields ?args =
     [''id'', ''summary'', ''start'', ''end'', ''location'', ''htmlLink'', ''status'',
      ''attendees'', ''calendarId'', ''calendarName'']"
    by (simp add: projectionFields_empty DEFAULT_FIELDS_def)
  have "projectionFields ?args = projectionFields (args\<lparr>arg_fields := None\<rparr>)"
    by (simp add: projectionFields_empty projectionFields_omitted)
  then have same: "handler J newClient ?args ctx
                     = handler J newClient (args\<lparr>arg_fields := None\<rparr>) ctx"
    by (rule handler_fields)
  have projected: "pickFields event (projectionFields ?args) = defaultProjection event" for event
    by (simp add: projectionFields_empty pickFields_default)
  have payload: "map_option sc_items (structuredContent (fst (handler J newClient ?args ctx)))
                   = Some (map defaultProjection (cappedEvents J args results))"
    if "providerToken ctx = Some token" and "token \<noteq> []"
      and "fst (calendarsToSearch (newClient token) args) = Inr calendars"
      and "\<not> (truthy (pageToken args) \<and> length calendars \<noteq> 1)"
      and "results = searchResults (newClient token) args calendars"
  proof -
    have "fst (handler J newClient ?args ctx)
            = successResult J ?args calendars (searchResults (newClient token) ?args calendars)"
      using that by (intro handler_result) simp_all
    then show ?thesis
      using that(5) by (simp add: successResult_def filteredItems_def projected)
  qed
  have nonempty: "[] \<notin> set (filteredItems J ?args results)"
  proof
    assume "[] \<in> set (filteredItems J ?args results)"
    then obtain event where "pickFields event DEFAULT_FIELDS = []"
      unfolding filteredItems_def projectionFields_empty by (auto dest: sym)
    then show False using pickFields_default_nonempty by blast
  qed
  from names same projected payload nonempty show ?thesis by blast
qed

theorem empty_field_selection_uses_defaults_witness:
  "providerToken exampleContext = Some ''secret'' \<and> ''secret'' \<noteq> []
   \<and> fst (calendarsToSearch (exampleClient ''secret'') defaultArgs) = Inr [calWork, calHome, calTeam]
   \<and> \<not> truthy (pageToken defaultArgs)
   \<and> handler exampleRuntime exampleClient (defaultArgs\<lparr>arg_fields := Some []\<rparr>) exampleContext
       = handler exampleRuntime exampleClient (defaultArgs\<lparr>arg_fields := None\<rparr>) exampleContext
   \<and> map_option sc_items (structuredContent (fst (handler exampleRuntime exampleClient
        (defaultArgs\<lparr>arg_fields := Some []\<rparr>) exampleContext)))
       = Some (map defaultProjection
                 [withCalendar calTeam evOld, withCalendar calWork evNoStart,
                  withCalendar calTeam evLunch, withCalendar calWork evSync])
   \<and> defaultProjection (withCalendar calWork evSync)
       = [(''id'', VString ''e1''), (''summary'', VString ''Team Sync''),
          (''start'', VTime \<lparr>dateTime = Some ''2025-01-02T10:00:00Z'', date = None\<rparr>),
          (''calendarId'', VString ''work''), (''calendarName'', VString ''Work'')]
   \<and> pickFields (withCalendar calWork evSync) (projectionFields (defaultArgs\<lparr>arg_fields := Some []\<rparr>))
       = defaultProjection (withCalendar calWork evSync)"
proof -
  let ?results = "searchResults (exampleClient ''secret'') defaultArgs [calWork, calHome, calTeam]"
  have h1: "providerToken exampleContext = Some ''secret''" by (simp add: exampleContext_def)
  have h3: "fst (calendarsToSearch (exampleClient ''secret'') defaultArgs) = Inr [calWork, calHome, calTeam]"
    using ex_all_calendars [of "''secret''" None] by (simp add: defaultArgs_def)
  have h4: "\<not> truthy (pageToken defaultArgs)" by (simp add: defaultArgs_def truthy_def)
  have capped: "cappedEvents exampleRuntime defaultArgs ?results
                  = [withCalendar calTeam evOld, withCalendar calWork evNoStart,
                     withCalendar calTeam evLunch, withCalendar calWork evSync]"
    by code_simp
  have shown: "defaultProjection (withCalendar calWork evSync)
       = [(''id'', VString ''e1''), (''summary'', VString ''Team Sync''),
          (''start'', VTime \<lparr>dateTime = Some ''2025-01-02T10:00:00Z'', date = None\<rparr>),
          (''calendarId'', VString ''work''), (''calendarName'', VString ''Work'')]"
    by code_simp
  note t = empty_field_selection_uses_defaults
    [where args = defaultArgs and J = exampleRuntime and newClient = exampleClient
       and ctx = exampleContext and token = "''secret''" and calendars = "[calWork, calHome, calTeam]"
       and results = ?results and event = "withCalendar calWork evSync"]
  note same = t [THEN conjunct2, THEN conjunct1]
  note projected = t [THEN conjunct2, THEN conjunct2, THEN conjunct1]
  note payload = t [THEN conjunct2, THEN conjunct2, THEN conjunct2, THEN conjunct1]
  have items: "map_option sc_items (structuredContent (fst (handler exampleRuntime exampleClient
        (defaultArgs\<lparr>arg_fields := Some []\<rparr>) exampleContext)))
       = Some (map defaultProjection
                 [withCalendar calTeam evOld, withCalendar calWork evNoStart,
                  withCalendar calTeam evLunch, withCalendar calWork evSync])"
    using payload h1 h3 h4 capped by simp
  have s: "''secret'' \<noteq> []" by simp
  from h1 s h3 h4 same items shown projected show ?thesis by (intro conjI)
qed

end
